theory Spec2Isabelle
  imports Main
begin

section \<open>JavaScript values and objects\<close>

text \<open>
  The adapters return plain JavaScript objects (typed \<open>unknown\<close> at the public API), and
  a parameter's \<open>default\<close> is an arbitrary value that is only copied. A value is null, a
  boolean, a number, a string, an array or an object; an object is the list of its own
  enumerable properties in the order \<open>Object.entries\<close> and \<open>JSON.stringify\<close> visit
  them. Numbers are never computed with, so integers stand for them. The value
  \<open>undefined\<close> is not a constructor: an optional field that reads as \<open>undefined\<close>
  is \<open>None\<close>.
\<close>

datatype js_value =
    JNull
  | JBool bool
  | JNum int
  | JStr string
  | JArr "js_value list"
  | JObj "(string \<times> js_value) list"

type_synonym js_object = "(string \<times> js_value) list"

text \<open>The own properties of an object value, and reading one own property.\<close>

fun own_props :: "js_value \<Rightarrow> js_object" where
  "own_props (JObj ps) = ps"
| "own_props v = []"

definition own_keys :: "js_value \<Rightarrow> string list" where
  "own_keys v = map fst (own_props v)"

definition get_field :: "js_value \<Rightarrow> string \<Rightarrow> js_value option" where
  "get_field v k = map_of (own_props v) k"

text \<open>
  Writing a data property: an existing own property keeps its place and takes the new
  value, a new one is added last.
\<close>

fun put_own :: "js_object \<Rightarrow> string \<Rightarrow> js_value \<Rightarrow> js_object" where
  "put_own [] k v = [(k, v)]"
| "put_own ((k', v') # ps) k v =
     (if k' = k then (k, v) # ps else (k', v') # put_own ps k v)"

text \<open>
  The assignment \<open>obj[key] = value\<close> on an object created by a literal, whose prototype is
  \<open>Object.prototype\<close>. Every member of \<open>Object.prototype\<close> is a writable data property,
  which the assignment shadows with an own property, except the accessor \<open>__proto__\<close>:
  when the object has no own property of that name the assignment runs the accessor's
  setter, which replaces the object's prototype (or does nothing, for a value that is
  neither an object nor null) and adds no own property.
\<close>

definition js_set :: "js_object \<Rightarrow> string \<Rightarrow> js_value \<Rightarrow> js_object" where
  "js_set obj k v =
     (if k = ''__proto__'' \<and> k \<notin> set (map fst obj) then obj else put_own obj k v)"

text \<open>
  \<open>String.prototype.toUpperCase\<close> on the ASCII letters; it is only ever applied to the
  five type names.
\<close>

definition upper_char :: "char \<Rightarrow> char" where
  "upper_char c =
     (case map_of (zip ''abcdefghijklmnopqrstuvwxyz'' ''ABCDEFGHIJKLMNOPQRSTUVWXYZ'') c of
        Some u \<Rightarrow> u
      | None \<Rightarrow> c)"

definition toUpperCase :: "string \<Rightarrow> string" where
  "toUpperCase s = map upper_char s"

text \<open>\<open>Array.prototype.join\<close> on strings.\<close>

fun join :: "string \<Rightarrow> string list \<Rightarrow> string" where
  "join sep [] = []"
| "join sep [x] = x"
| "join sep (x # y # ys) = x @ sep @ join sep (y # ys)"


section \<open>The data contract (types.ts)\<close>

text \<open>
  \<open>ParamType\<close> is the union of five string literals; \<open>ParamType_str\<close> gives the literal
  a constructor stands for, which is what the adapters copy into their output.
\<close>

datatype ParamType = T_string | T_number | T_boolean | T_array | T_object

fun ParamType_str :: "ParamType \<Rightarrow> string" where
  "ParamType_str T_string = ''string''"
| "ParamType_str T_number = ''number''"
| "ParamType_str T_boolean = ''boolean''"
| "ParamType_str T_array = ''array''"
| "ParamType_str T_object = ''object''"

text \<open>The \<open>items\<close> field of a parameter: an object with the single field \<open>type\<close>.\<close>

datatype ToolItems = ToolItems (i_type: ParamType)

text \<open>
  \<open>ToolParam\<close>: the field \<open>type\<close> and the optional fields \<open>description\<close>,
  \<open>required\<close>, \<open>default\<close>, \<open>enum\<close>, \<open>items\<close> and \<open>properties\<close>. An absent optional
  field is \<open>None\<close>. The nested \<open>properties\<close> make the type recursive.
\<close>

datatype ToolParam = ToolParam
  (p_type: ParamType)
  (p_description: "string option")
  (p_required: "bool option")
  (p_default: "js_value option")
  (p_enum: "string list option")
  (p_items: "ToolItems option")
  (p_properties: "(string \<times> ToolParam) list option")

text \<open>
  \<open>UniversalTool\<close>. The field \<open>params\<close> is a \<open>Record<string, ToolParam>\<close>; it is held
  as the list of its own entries, in the order \<open>Object.entries\<close> yields them. The keys
  of an object are distinct.
\<close>

record UniversalTool =
  name :: string
  description :: string
  params :: "(string \<times> ToolParam) list"


section \<open>The OpenAI adapter (adapters/openai.ts)\<close>

text \<open>
  \<open>convertParam\<close> starts from the literal \<open>{ type: param.type }\<close> and assigns the
  optional keys in turn. The guards are JavaScript's: \<open>if (param.description)\<close> holds for
  a non-empty string, \<open>if (param.enum)\<close> for any array (an empty one too),
  \<open>param.default !== undefined\<close> for any supplied value, and \<open>param.items\<close> for any
  object.
\<close>

definition openai_convertParam :: "ToolParam \<Rightarrow> js_value" where
  "openai_convertParam param =
     (let property = [(''type'', JStr (ParamType_str (p_type param)))];
          property = (case p_description param of
                        Some d \<Rightarrow> if d \<noteq> [] then js_set property ''description'' (JStr d)
                                  else property
                      | None \<Rightarrow> property);
          property = (case p_enum param of
                        Some e \<Rightarrow> js_set property ''enum'' (JArr (map JStr e))
                      | None \<Rightarrow> property);
          property = (case p_default param of
                        Some v \<Rightarrow> js_set property ''default'' v
                      | None \<Rightarrow> property);
          property = (if p_type param = T_array
                      then (case p_items param of
                              Some it \<Rightarrow> js_set property ''items''
                                           (JObj [(''type'', JStr (ParamType_str (i_type it)))])
                            | None \<Rightarrow> property)
                      else property)
      in JObj property)"

text \<open>
  The loop over \<open>Object.entries(tool.params)\<close>: the state is the pair of the object
  \<open>properties\<close> and the array \<open>required\<close>; \<open>if (paramDef.required)\<close> holds for
  \<open>true\<close> only.
\<close>

fun openai_loop :: "(string \<times> ToolParam) list \<Rightarrow> js_object \<times> string list
    \<Rightarrow> js_object \<times> string list" where
  "openai_loop [] st = st"
| "openai_loop ((paramName, paramDef) # rest) (properties, required) =
     openai_loop rest
       (js_set properties paramName (openai_convertParam paramDef),
        if p_required paramDef = Some True then required @ [paramName] else required)"

definition openaiAdapter :: "UniversalTool \<Rightarrow> js_value" where
  "openaiAdapter tool =
     (case openai_loop (params tool) ([], []) of (properties, required) \<Rightarrow>
        JObj [(''type'', JStr ''function''),
              (''function'',
               JObj [(''name'', JStr (name tool)),
                     (''description'', JStr (description tool)),
                     (''parameters'',
                      JObj [(''type'', JStr ''object''),
                            (''properties'', JObj properties),
                            (''required'', JArr (map JStr required))])])])"


section \<open>The Anthropic adapter (adapters/anthropic.ts)\<close>

definition anthropic_convertParam :: "ToolParam \<Rightarrow> js_value" where
  "anthropic_convertParam param =
     (let property = [(''type'', JStr (ParamType_str (p_type param)))];
          property = (case p_description param of
                        Some d \<Rightarrow> if d \<noteq> [] then js_set property ''description'' (JStr d)
                                  else property
                      | None \<Rightarrow> property);
          property = (case p_enum param of
                        Some e \<Rightarrow> js_set property ''enum'' (JArr (map JStr e))
                      | None \<Rightarrow> property);
          property = (case p_default param of
                        Some v \<Rightarrow> js_set property ''default'' v
                      | None \<Rightarrow> property);
          property = (if p_type param = T_array
                      then (case p_items param of
                              Some it \<Rightarrow> js_set property ''items''
                                           (JObj [(''type'', JStr (ParamType_str (i_type it)))])
                            | None \<Rightarrow> property)
                      else property)
      in JObj property)"

fun anthropic_loop :: "(string \<times> ToolParam) list \<Rightarrow> js_object \<times> string list
    \<Rightarrow> js_object \<times> string list" where
  "anthropic_loop [] st = st"
| "anthropic_loop ((paramName, paramDef) # rest) (properties, required) =
     anthropic_loop rest
       (js_set properties paramName (anthropic_convertParam paramDef),
        if p_required paramDef = Some True then required @ [paramName] else required)"

definition anthropicAdapter :: "UniversalTool \<Rightarrow> js_value" where
  "anthropicAdapter tool =
     (case anthropic_loop (params tool) ([], []) of (properties, required) \<Rightarrow>
        JObj [(''name'', JStr (name tool)),
              (''description'', JStr (description tool)),
              (''input_schema'',
               JObj [(''type'', JStr ''object''),
                     (''properties'', JObj properties),
                     (''required'', JArr (map JStr required))])])"


section \<open>The Gemini adapter (adapters/gemini.ts)\<close>

definition toGeminiType :: "string \<Rightarrow> string" where
  "toGeminiType t = toUpperCase t"

definition gemini_convertParam :: "ToolParam \<Rightarrow> js_value" where
  "gemini_convertParam param =
     (let property = [(''type'', JStr (toGeminiType (ParamType_str (p_type param))))];
          property = (case p_description param of
                        Some d \<Rightarrow> if d \<noteq> [] then js_set property ''description'' (JStr d)
                                  else property
                      | None \<Rightarrow> property);
          property = (case p_enum param of
                        Some e \<Rightarrow> js_set property ''enum'' (JArr (map JStr e))
                      | None \<Rightarrow> property);
          property = (case p_default param of
                        Some v \<Rightarrow> js_set property ''default'' v
                      | None \<Rightarrow> property);
          property = (if p_type param = T_array
                      then (case p_items param of
                              Some it \<Rightarrow> js_set property ''items''
                                           (JObj [(''type'',
                                                   JStr (toGeminiType (ParamType_str (i_type it))))])
                            | None \<Rightarrow> property)
                      else property)
      in JObj property)"

fun gemini_loop :: "(string \<times> ToolParam) list \<Rightarrow> js_object \<times> string list
    \<Rightarrow> js_object \<times> string list" where
  "gemini_loop [] st = st"
| "gemini_loop ((paramName, paramDef) # rest) (properties, required) =
     gemini_loop rest
       (js_set properties paramName (gemini_convertParam paramDef),
        if p_required paramDef = Some True then required @ [paramName] else required)"

definition geminiAdapter :: "UniversalTool \<Rightarrow> js_value" where
  "geminiAdapter tool =
     (case gemini_loop (params tool) ([], []) of (properties, required) \<Rightarrow>
        JObj [(''name'', JStr (name tool)),
              (''description'', JStr (description tool)),
              (''parameters'',
               JObj [(''type'', JStr ''OBJECT''),
                     (''properties'', JObj properties),
                     (''required'', JArr (map JStr required))])])"


section \<open>The Mistral adapter (adapters/mistral.ts)\<close>

definition mistral_convertParam :: "ToolParam \<Rightarrow> js_value" where
  "mistral_convertParam param =
     (let property = [(''type'', JStr (ParamType_str (p_type param)))];
          property = (case p_description param of
                        Some d \<Rightarrow> if d \<noteq> [] then js_set property ''description'' (JStr d)
                                  else property
                      | None \<Rightarrow> property);
          property = (case p_enum param of
                        Some e \<Rightarrow> js_set property ''enum'' (JArr (map JStr e))
                      | None \<Rightarrow> property);
          property = (case p_default param of
                        Some v \<Rightarrow> js_set property ''default'' v
                      | None \<Rightarrow> property);
          property = (if p_type param = T_array
                      then (case p_items param of
                              Some it \<Rightarrow> js_set property ''items''
                                           (JObj [(''type'', JStr (ParamType_str (i_type it)))])
                            | None \<Rightarrow> property)
                      else property)
      in JObj property)"

fun mistral_loop :: "(string \<times> ToolParam) list \<Rightarrow> js_object \<times> string list
    \<Rightarrow> js_object \<times> string list" where
  "mistral_loop [] st = st"
| "mistral_loop ((paramName, paramDef) # rest) (properties, required) =
     mistral_loop rest
       (js_set properties paramName (mistral_convertParam paramDef),
        if p_required paramDef = Some True then required @ [paramName] else required)"

definition mistralAdapter :: "UniversalTool \<Rightarrow> js_value" where
  "mistralAdapter tool =
     (case mistral_loop (params tool) ([], []) of (properties, required) \<Rightarrow>
        JObj [(''type'', JStr ''function''),
              (''function'',
               JObj [(''name'', JStr (name tool)),
                     (''description'', JStr (description tool)),
                     (''parameters'',
                      JObj [(''type'', JStr ''object''),
                            (''properties'', JObj properties),
                            (''required'', JArr (map JStr required))])])])"


section \<open>The public API (index.ts)\<close>

text \<open>
  The registry \<open>adapters\<close> is an object literal with four own properties; its prototype
  is \<open>Object.prototype\<close>. \<open>getProviders\<close> is \<open>Object.keys(adapters)\<close>: the own keys,
  in insertion order.
\<close>

definition adapters :: "(string \<times> (UniversalTool \<Rightarrow> js_value)) list" where
  "adapters =
     [(''openai'', openaiAdapter),
      (''anthropic'', anthropicAdapter),
      (''gemini'', geminiAdapter),
      (''mistral'', mistralAdapter)]"

definition getProviders :: "string list" where
  "getProviders = map fst adapters"

text \<open>
  The members every ordinary object inherits from \<open>Object.prototype\<close>. The read
  \<open>adapters[provider]\<close> finds an own property first, then a member of the prototype, and
  is \<open>undefined\<close> for every other name.
\<close>

definition object_prototype_keys :: "string list" where
  "object_prototype_keys =
     [''constructor'', ''toString'', ''toLocaleString'', ''valueOf'', ''hasOwnProperty'',
      ''isPrototypeOf'', ''propertyIsEnumerable'', ''__proto__'', ''__defineGetter__'',
      ''__defineSetter__'', ''__lookupGetter__'', ''__lookupSetter__'']"

datatype member =
    Own "UniversalTool \<Rightarrow> js_value"
  | Inherited string
  | Undefined

definition adapters_get :: "string \<Rightarrow> member" where
  "adapters_get provider =
     (case map_of adapters provider of
        Some f \<Rightarrow> Own f
      | None \<Rightarrow> if provider \<in> set object_prototype_keys then Inherited provider
                else Undefined)"

text \<open>
  What a call can throw: the \<open>Error\<close> of \<open>adapt\<close> with its message, or a
  \<open>TypeError\<close> of the runtime. What \<open>adapt\<close> can return (its result type is
  \<open>unknown\<close>): a value an adapter built, or the caller's own tool object.
\<close>

datatype js_error = Error string | TypeError

datatype unknown = Val js_value | Ref UniversalTool

text \<open>
  An inherited member is truthy, so the guard \<open>if (!adapter)\<close> lets it through and
  \<open>adapter(tool)\<close> applies it as a plain function, with \<open>this\<close> undefined (module code
  is strict): \<open>Object(tool)\<close> returns its argument, \<open>Object.prototype.toString\<close>
  returns \<open>"[object Undefined]"\<close>, the other methods fail to convert \<open>this\<close> to an
  object, and the value of \<open>__proto__\<close> is not callable.
\<close>

definition call_inherited :: "string \<Rightarrow> UniversalTool \<Rightarrow> js_error + unknown" where
  "call_inherited m tool =
     (if m = ''constructor'' then Inr (Ref tool)
      else if m = ''toString'' then Inr (Val (JStr ''[object Undefined]''))
      else Inl TypeError)"

definition unknown_provider_message :: "string \<Rightarrow> string" where
  "unknown_provider_message provider =
     ''Unknown provider: '' @ provider @ ''. Supported providers: '' @ join '', '' getProviders"

definition adapt :: "UniversalTool \<Rightarrow> string \<Rightarrow> js_error + unknown" where
  "adapt tool provider =
     (case adapters_get provider of
        Undefined \<Rightarrow> Inl (Error (unknown_provider_message provider))
      | Own adapter \<Rightarrow> Inr (Val (adapter tool))
      | Inherited m \<Rightarrow> call_inherited m tool)"

text \<open>
  \<open>adaptAll\<close> is \<open>tools.map((tool) => adapt(tool, provider))\<close>: the callback runs once
  per element, in order, and the first exception ends the call.
\<close>

fun adaptAll :: "UniversalTool list \<Rightarrow> string \<Rightarrow> js_error + unknown list" where
  "adaptAll [] provider = Inr []"
| "adaptAll (tool # tools) provider =
     (case adapt tool provider of
        Inl e \<Rightarrow> Inl e
      | Inr v \<Rightarrow> (case adaptAll tools provider of
                   Inl e \<Rightarrow> Inl e
                 | Inr vs \<Rightarrow> Inr (v # vs)))"


section \<open>Reading the output, comparing inputs\<close>

text \<open>Following a path of keys into nested objects.\<close>

fun get_path :: "js_value \<Rightarrow> string list \<Rightarrow> js_value option" where
  "get_path v [] = Some v"
| "get_path v (k # ks) = (case get_field v k of None \<Rightarrow> None | Some w \<Rightarrow> get_path w ks)"

text \<open>
  Two parameters that agree on every field but \<open>properties\<close>, and two tools that agree
  on name, description and parameter names, with such parameters under each name.
\<close>

definition same_but_properties :: "ToolParam \<Rightarrow> ToolParam \<Rightarrow> bool" where
  "same_but_properties p q =
     (p_type p = p_type q \<and> p_description p = p_description q \<and> p_required p = p_required q
      \<and> p_default p = p_default q \<and> p_enum p = p_enum q \<and> p_items p = p_items q)"

definition differ_only_in_properties :: "UniversalTool \<Rightarrow> UniversalTool \<Rightarrow> bool" where
  "differ_only_in_properties t u =
     (name t = name u \<and> description t = description u
      \<and> list_all2 (\<lambda>(k, p) (l, q). k = l \<and> same_but_properties p q) (params t) (params u))"

text \<open>The parameters whose \<open>required\<close> is \<open>true\<close>, in the order of the entries.\<close>

definition required_names :: "(string \<times> ToolParam) list \<Rightarrow> string list" where
  "required_names ps = map fst (filter (\<lambda>(k, p). p_required p = Some True) ps)"


section \<open>Concrete tools\<close>

definition weather_tool :: UniversalTool where
  "weather_tool =
     \<lparr>name = ''get_weather'', description = ''d'',
      params = [(''location'',
                 ToolParam T_string None (Some True) None None None None)]\<rparr>"

text \<open>
  A tool as \<open>JSON.parse\<close> builds it from
  \<open>{"name": "t", "description": "d", "params": {"__proto__": {"type": "string"}}}\<close>:
  the parser defines \<open>__proto__\<close> as an own property of \<open>params\<close>.
\<close>

definition proto_tool :: UniversalTool where
  "proto_tool =
     \<lparr>name = ''t'', description = ''d'',
      params = [(''__proto__'', ToolParam T_string None None None None None None)]\<rparr>"

text \<open>Two tools whose only difference is the nested \<open>properties\<close> of the parameter \<open>o\<close>.\<close>

definition nested_tool_a :: UniversalTool where
  "nested_tool_a =
     \<lparr>name = ''n'', description = ''d'',
      params = [(''o'', ToolParam T_object None (Some True) None None None None)]\<rparr>"

definition nested_tool_b :: UniversalTool where
  "nested_tool_b =
     \<lparr>name = ''n'', description = ''d'',
      params = [(''o'', ToolParam T_object None (Some True) None None None
                   (Some [(''x'', ToolParam T_string None None None None None None)]))]\<rparr>"

text \<open>An array parameter with string items, and nothing else.\<close>

definition string_array_param :: ToolParam where
  "string_array_param = ToolParam T_array None None None None (Some (ToolItems T_string)) None"


text \<open>
  Two more tools as \<open>JSON.parse\<close> builds them, with the own parameter name
  \<open>__proto__\<close>: a number parameter with the default \<open>0\<close>, and an array parameter with
  string items.
\<close>

definition proto_default_tool :: UniversalTool where
  "proto_default_tool =
     \<lparr>name = ''t'', description = ''d'',
      params = [(''__proto__'', ToolParam T_number None None (Some (JNum 0)) None None None)]\<rparr>"

definition proto_array_tool :: UniversalTool where
  "proto_array_tool =
     \<lparr>name = ''t'', description = ''d'',
      params = [(''__proto__'', string_array_param)]\<rparr>"


section \<open>Objects: keys after an assignment\<close>

lemma keys_put_own: "fst ` set (put_own obj k v) = insert k (fst ` set obj)"
  by (induction obj) (force simp: image_iff)+

lemma keys_js_set:
  "fst ` set (js_set obj k v) =
     (if k = ''__proto__'' \<and> k \<notin> fst ` set obj then fst ` set obj
      else insert k (fst ` set obj))"
  by (auto simp: js_set_def keys_put_own)

lemma in_own_keys: "(k \<in> set (own_keys v)) = (get_field v k \<noteq> None)"
  by (simp add: own_keys_def get_field_def map_of_eq_None_iff)

lemma map_of_put_own: "map_of (put_own obj k v) = (map_of obj)(k \<mapsto> v)"
  by (induction obj) auto

lemma map_of_js_set:
  "map_of (js_set obj k v) =
     (if k = ''__proto__'' \<and> k \<notin> fst ` set obj then map_of obj else (map_of obj)(k \<mapsto> v))"
  by (auto simp: js_set_def map_of_put_own)


section \<open>The property descriptors in closed form\<close>

text \<open>
  The descriptor is the \<open>type\<close> entry followed by one entry for each optional key whose
  guard holds, in the order of the assignments.
\<close>

lemma openai_convertParam_eq:
  "openai_convertParam p =
     JObj ((''type'', JStr (ParamType_str (p_type p)))
           # (case p_description p of
                None \<Rightarrow> []
              | Some d \<Rightarrow> if d = [] then [] else [(''description'', JStr d)])
           @ (case p_enum p of None \<Rightarrow> [] | Some e \<Rightarrow> [(''enum'', JArr (map JStr e))])
           @ (case p_default p of None \<Rightarrow> [] | Some v \<Rightarrow> [(''default'', v)])
           @ (if p_type p = T_array
              then (case p_items p of
                      None \<Rightarrow> []
                    | Some it \<Rightarrow> [(''items'', JObj [(''type'', JStr (ParamType_str (i_type it)))])])
              else []))"
  by (cases "p_description p"; cases "p_enum p"; cases "p_default p"; cases "p_items p")
     (simp_all add: openai_convertParam_def js_set_def)

lemma gemini_convertParam_eq:
  "gemini_convertParam p =
     JObj ((''type'', JStr (toUpperCase (ParamType_str (p_type p))))
           # (case p_description p of
                None \<Rightarrow> []
              | Some d \<Rightarrow> if d = [] then [] else [(''description'', JStr d)])
           @ (case p_enum p of None \<Rightarrow> [] | Some e \<Rightarrow> [(''enum'', JArr (map JStr e))])
           @ (case p_default p of None \<Rightarrow> [] | Some v \<Rightarrow> [(''default'', v)])
           @ (if p_type p = T_array
              then (case p_items p of
                      None \<Rightarrow> []
                    | Some it \<Rightarrow>
                        [(''items'', JObj [(''type'', JStr (toUpperCase (ParamType_str (i_type it))))])])
              else []))"
  by (cases "p_description p"; cases "p_enum p"; cases "p_default p"; cases "p_items p")
     (simp_all add: gemini_convertParam_def js_set_def toGeminiType_def)

lemma anthropic_openai_convertParam: "anthropic_convertParam p = openai_convertParam p"
  by (simp add: openai_convertParam_def anthropic_convertParam_def)

lemma mistral_openai_convertParam: "mistral_convertParam p = openai_convertParam p"
  by (simp add: openai_convertParam_def mistral_convertParam_def)

lemma openai_default: "get_field (openai_convertParam p) ''default'' = p_default p"
  by (simp add: openai_convertParam_eq get_field_def split: option.splits)

lemma gemini_default: "get_field (gemini_convertParam p) ''default'' = p_default p"
  by (simp add: gemini_convertParam_eq get_field_def split: option.splits)

lemma openai_items:
  "get_field (openai_convertParam p) ''items'' =
     (if p_type p = T_array
      then map_option (\<lambda>it. JObj [(''type'', JStr (ParamType_str (i_type it)))]) (p_items p)
      else None)"
  by (simp add: openai_convertParam_eq get_field_def split: option.splits)

lemma gemini_items:
  "get_field (gemini_convertParam p) ''items'' =
     (if p_type p = T_array
      then map_option (\<lambda>it. JObj [(''type'', JStr (toUpperCase (ParamType_str (i_type it))))])
             (p_items p)
      else None)"
  by (simp add: gemini_convertParam_eq get_field_def split: option.splits)



section \<open>The loops over the parameters\<close>

lemma anthropic_openai_loop: "anthropic_loop ps st = openai_loop ps st"
  by (induction ps st rule: anthropic_loop.induct) (simp_all add: anthropic_openai_convertParam)

lemma mistral_openai_loop: "mistral_loop ps st = openai_loop ps st"
  by (induction ps st rule: mistral_loop.induct) (simp_all add: mistral_openai_convertParam)

text \<open>The array \<open>required\<close> grows by the names of the required parameters, in order.\<close>

lemma openai_loop_required: "snd (openai_loop ps (props, req)) = req @ required_names ps"
  by (induction ps arbitrary: props req) (auto simp: required_names_def)

lemma gemini_loop_required: "snd (gemini_loop ps (props, req)) = req @ required_names ps"
proof (induction ps arbitrary: props req)
  case Nil
  show ?case by (simp add: required_names_def)
next
  case (Cons a ps)
  obtain k p where a: "a = (k, p)" by (cases a)
  show ?case
    by (cases "p_required p = Some True") (simp_all add: a Cons.IH required_names_def)
qed

text \<open>
  The object \<open>properties\<close> gains a key for every parameter name but \<open>__proto__\<close>.
\<close>

lemma openai_loop_keys:
  "''__proto__'' \<notin> fst ` set props \<Longrightarrow>
   fst ` set (fst (openai_loop ps (props, req))) =
     fst ` set props \<union> (fst ` set ps - {''__proto__''})"
proof (induction ps arbitrary: props req)
  case Nil
  then show ?case by simp
next
  case (Cons a ps)
  obtain k p where a: "a = (k, p)" by (cases a)
  let ?props = "js_set props k (openai_convertParam p)"
  have "''__proto__'' \<notin> fst ` set ?props"
    using Cons.prems by (simp add: keys_js_set)
  from Cons.IH [OF this, of req] Cons.IH [OF this, of "req @ [k]"] show ?case
    using Cons.prems by (auto simp: a keys_js_set)
qed

lemma gemini_loop_keys:
  "''__proto__'' \<notin> fst ` set props \<Longrightarrow>
   fst ` set (fst (gemini_loop ps (props, req))) =
     fst ` set props \<union> (fst ` set ps - {''__proto__''})"
proof (induction ps arbitrary: props req)
  case Nil
  then show ?case by simp
next
  case (Cons a ps)
  obtain k p where a: "a = (k, p)" by (cases a)
  let ?props = "js_set props k (gemini_convertParam p)"
  have "''__proto__'' \<notin> fst ` set ?props"
    using Cons.prems by (simp add: keys_js_set)
  from Cons.IH [OF this, of req] Cons.IH [OF this, of "req @ [k]"] show ?case
    using Cons.prems by (auto simp: a keys_js_set)
qed

text \<open>
  Under a name other than \<open>__proto__\<close> the object \<open>properties\<close> holds the descriptor of
  the parameter of that name (the last one, should a list repeat a name).
\<close>

lemma openai_loop_lookup:
  "''__proto__'' \<notin> fst ` set props \<Longrightarrow>
   map_of (fst (openai_loop ps (props, req))) k =
     (if k = ''__proto__'' then None
      else case map_of (rev ps) k of
             None \<Rightarrow> map_of props k
           | Some p \<Rightarrow> Some (openai_convertParam p))"
proof (induction ps arbitrary: props req)
  case Nil
  then show ?case by (simp add: map_of_eq_None_iff)
next
  case (Cons a ps)
  obtain k' p' where a: "a = (k', p')" by (cases a)
  let ?props = "js_set props k' (openai_convertParam p')"
  have fresh: "''__proto__'' \<notin> fst ` set ?props"
    using Cons.prems by (simp add: keys_js_set)
  show ?case
    using Cons.prems
    by (simp add: a Cons.IH [OF fresh] map_of_js_set map_add_def split: option.splits)
qed

lemma gemini_loop_lookup:
  "''__proto__'' \<notin> fst ` set props \<Longrightarrow>
   map_of (fst (gemini_loop ps (props, req))) k =
     (if k = ''__proto__'' then None
      else case map_of (rev ps) k of
             None \<Rightarrow> map_of props k
           | Some p \<Rightarrow> Some (gemini_convertParam p))"
proof (induction ps arbitrary: props req)
  case Nil
  then show ?case by (simp add: map_of_eq_None_iff)
next
  case (Cons a ps)
  obtain k' p' where a: "a = (k', p')" by (cases a)
  let ?props = "js_set props k' (gemini_convertParam p')"
  have fresh: "''__proto__'' \<notin> fst ` set ?props"
    using Cons.prems by (simp add: keys_js_set)
  show ?case
    using Cons.prems
    by (simp add: a Cons.IH [OF fresh] map_of_js_set map_add_def split: option.splits)
qed

text \<open>The loops do not read the field \<open>properties\<close> of a parameter.\<close>

lemma same_but_properties_required:
  "same_but_properties p q \<Longrightarrow> p_required p = p_required q"
  by (simp add: same_but_properties_def)

lemma openai_convertParam_cong:
  "same_but_properties p q \<Longrightarrow> openai_convertParam p = openai_convertParam q"
  by (simp add: same_but_properties_def openai_convertParam_eq)

lemma gemini_convertParam_cong:
  "same_but_properties p q \<Longrightarrow> gemini_convertParam p = gemini_convertParam q"
  by (simp add: same_but_properties_def gemini_convertParam_eq)

lemma openai_loop_cong:
  "list_all2 (\<lambda>(k, p) (l, q). k = l \<and> same_but_properties p q) ps qs \<Longrightarrow>
   openai_loop ps st = openai_loop qs st"
proof (induction ps qs arbitrary: st rule: list_all2_induct)
  case Nil
  then show ?case by simp
next
  case (Cons x xs y ys)
  then show ?case
    by (cases st; cases x; cases y)
       (auto simp: openai_convertParam_cong same_but_properties_required)
qed

lemma gemini_loop_cong:
  "list_all2 (\<lambda>(k, p) (l, q). k = l \<and> same_but_properties p q) ps qs \<Longrightarrow>
   gemini_loop ps st = gemini_loop qs st"
proof (induction ps qs arbitrary: st rule: list_all2_induct)
  case Nil
  then show ?case by simp
next
  case (Cons x xs y ys)
  then show ?case
    by (cases st; cases x; cases y)
       (auto simp: gemini_convertParam_cong same_but_properties_required)
qed


section \<open>The adapters' output in terms of the loops\<close>

lemma openaiAdapter_eq:
  "openaiAdapter tool =
     JObj [(''type'', JStr ''function''),
           (''function'',
            JObj [(''name'', JStr (name tool)),
                  (''description'', JStr (description tool)),
                  (''parameters'',
                   JObj [(''type'', JStr ''object''),
                         (''properties'', JObj (fst (openai_loop (params tool) ([], [])))),
                         (''required'', JArr (map JStr (required_names (params tool))))])])]"
  using openai_loop_required [of "params tool" "[]" "[]"]
  by (cases "openai_loop (params tool) ([], [])") (simp add: openaiAdapter_def)

lemma mistralAdapter_eq: "mistralAdapter tool = openaiAdapter tool"
  by (simp add: openaiAdapter_def mistralAdapter_def mistral_openai_loop)

lemma anthropicAdapter_eq:
  "anthropicAdapter tool =
     JObj [(''name'', JStr (name tool)),
           (''description'', JStr (description tool)),
           (''input_schema'',
            JObj [(''type'', JStr ''object''),
                  (''properties'', JObj (fst (openai_loop (params tool) ([], [])))),
                  (''required'', JArr (map JStr (required_names (params tool))))])]"
  using openai_loop_required [of "params tool" "[]" "[]"]
  by (cases "openai_loop (params tool) ([], [])")
     (simp add: anthropicAdapter_def anthropic_openai_loop)

lemma geminiAdapter_eq:
  "geminiAdapter tool =
     JObj [(''name'', JStr (name tool)),
           (''description'', JStr (description tool)),
           (''parameters'',
            JObj [(''type'', JStr ''OBJECT''),
                  (''properties'', JObj (fst (gemini_loop (params tool) ([], [])))),
                  (''required'', JArr (map JStr (required_names (params tool))))])]"
  using gemini_loop_required [of "params tool" "[]" "[]"]
  by (cases "gemini_loop (params tool) ([], [])") (simp add: geminiAdapter_def)

text \<open>
  Required-set fidelity: under every adapter the array \<open>required\<close> of the output is the
  list of the names of the parameters whose \<open>required\<close> is \<open>true\<close>.
\<close>

lemma required_lists:
  "get_path (openaiAdapter tool) [''function'', ''parameters'', ''required'']
     = Some (JArr (map JStr (required_names (params tool))))"
  "get_path (anthropicAdapter tool) [''input_schema'', ''required'']
     = Some (JArr (map JStr (required_names (params tool))))"
  "get_path (geminiAdapter tool) [''parameters'', ''required'']
     = Some (JArr (map JStr (required_names (params tool))))"
  "get_path (mistralAdapter tool) [''function'', ''parameters'', ''required'']
     = Some (JArr (map JStr (required_names (params tool))))"
  by (simp_all add: mistralAdapter_eq openaiAdapter_eq anthropicAdapter_eq geminiAdapter_eq
      get_field_def)

text \<open>
  The keys of the output \<open>properties\<close> are the parameter names other than \<open>__proto__\<close>.
\<close>

lemma property_keys:
  "\<exists>props. get_path (openaiAdapter tool) [''function'', ''parameters'', ''properties'']
              = Some (JObj props)
           \<and> fst ` set props = fst ` set (params tool) - {''__proto__''}"
  "\<exists>props. get_path (anthropicAdapter tool) [''input_schema'', ''properties'']
              = Some (JObj props)
           \<and> fst ` set props = fst ` set (params tool) - {''__proto__''}"
  "\<exists>props. get_path (geminiAdapter tool) [''parameters'', ''properties'']
              = Some (JObj props)
           \<and> fst ` set props = fst ` set (params tool) - {''__proto__''}"
  "\<exists>props. get_path (mistralAdapter tool) [''function'', ''parameters'', ''properties'']
              = Some (JObj props)
           \<and> fst ` set props = fst ` set (params tool) - {''__proto__''}"
  using openai_loop_keys [of "[]" "params tool" "[]"] gemini_loop_keys [of "[]" "params tool" "[]"]
  by (simp_all add: mistralAdapter_eq openaiAdapter_eq anthropicAdapter_eq geminiAdapter_eq
      get_field_def)


text \<open>
  The descriptor stored under a parameter name in the output: the converted parameter
  of that name, and nothing under \<open>__proto__\<close>.
\<close>

lemma descriptors_in_output:
  "get_path (openaiAdapter tool) [''function'', ''parameters'', ''properties'', k] =
     (if k = ''__proto__'' then None
      else map_option openai_convertParam (map_of (rev (params tool)) k))"
  "get_path (anthropicAdapter tool) [''input_schema'', ''properties'', k] =
     (if k = ''__proto__'' then None
      else map_option anthropic_convertParam (map_of (rev (params tool)) k))"
  "get_path (geminiAdapter tool) [''parameters'', ''properties'', k] =
     (if k = ''__proto__'' then None
      else map_option gemini_convertParam (map_of (rev (params tool)) k))"
  "get_path (mistralAdapter tool) [''function'', ''parameters'', ''properties'', k] =
     (if k = ''__proto__'' then None
      else map_option mistral_convertParam (map_of (rev (params tool)) k))"
  using openai_loop_lookup [of "[]" "params tool" "[]" k]
    gemini_loop_lookup [of "[]" "params tool" "[]" k]
  by (simp_all add: mistralAdapter_eq openaiAdapter_eq anthropicAdapter_eq geminiAdapter_eq
      get_field_def anthropic_openai_convertParam mistral_openai_convertParam
      split: option.splits)


text \<open>Reading along a path in two stages.\<close>

lemma get_path_append:
  "get_path v (ks @ ls) = (case get_path v ks of None \<Rightarrow> None | Some w \<Rightarrow> get_path w ls)"
  by (induction ks arbitrary: v) (simp_all split: option.splits)

text \<open>
  The \<open>default\<close> of a parameter in the adapters' output: under every name other than
  \<open>__proto__\<close> the descriptor holds exactly the default that was supplied, and has no
  key \<open>default\<close> when none was.
\<close>

lemma defaults_in_output:
  "get_path (openaiAdapter tool) [''function'', ''parameters'', ''properties'', k, ''default''] =
     (if k = ''__proto__'' then None
      else case map_of (rev (params tool)) k of None \<Rightarrow> None | Some p \<Rightarrow> p_default p)"
  "get_path (anthropicAdapter tool) [''input_schema'', ''properties'', k, ''default''] =
     (if k = ''__proto__'' then None
      else case map_of (rev (params tool)) k of None \<Rightarrow> None | Some p \<Rightarrow> p_default p)"
  "get_path (geminiAdapter tool) [''parameters'', ''properties'', k, ''default''] =
     (if k = ''__proto__'' then None
      else case map_of (rev (params tool)) k of None \<Rightarrow> None | Some p \<Rightarrow> p_default p)"
  "get_path (mistralAdapter tool) [''function'', ''parameters'', ''properties'', k, ''default''] =
     (if k = ''__proto__'' then None
      else case map_of (rev (params tool)) k of None \<Rightarrow> None | Some p \<Rightarrow> p_default p)"
proof -
  have o: "get_path (openaiAdapter tool)
        ([''function'', ''parameters'', ''properties'', k] @ [''default'']) =
      (if k = ''__proto__'' then None
       else case map_of (rev (params tool)) k of None \<Rightarrow> None | Some p \<Rightarrow> p_default p)"
    by (simp only: get_path_append descriptors_in_output)
       (simp add: openai_default split: option.splits)
  have a: "get_path (anthropicAdapter tool)
        ([''input_schema'', ''properties'', k] @ [''default'']) =
      (if k = ''__proto__'' then None
       else case map_of (rev (params tool)) k of None \<Rightarrow> None | Some p \<Rightarrow> p_default p)"
    by (simp only: get_path_append descriptors_in_output)
       (simp add: anthropic_openai_convertParam openai_default split: option.splits)
  have g: "get_path (geminiAdapter tool)
        ([''parameters'', ''properties'', k] @ [''default'']) =
      (if k = ''__proto__'' then None
       else case map_of (rev (params tool)) k of None \<Rightarrow> None | Some p \<Rightarrow> p_default p)"
    by (simp only: get_path_append descriptors_in_output)
       (simp add: gemini_default split: option.splits)
  show "get_path (openaiAdapter tool)
        [''function'', ''parameters'', ''properties'', k, ''default''] =
      (if k = ''__proto__'' then None
       else case map_of (rev (params tool)) k of None \<Rightarrow> None | Some p \<Rightarrow> p_default p)"
    using o by simp
  then show "get_path (mistralAdapter tool)
        [''function'', ''parameters'', ''properties'', k, ''default''] =
      (if k = ''__proto__'' then None
       else case map_of (rev (params tool)) k of None \<Rightarrow> None | Some p \<Rightarrow> p_default p)"
    by (simp only: mistralAdapter_eq)
  show "get_path (anthropicAdapter tool) [''input_schema'', ''properties'', k, ''default''] =
      (if k = ''__proto__'' then None
       else case map_of (rev (params tool)) k of None \<Rightarrow> None | Some p \<Rightarrow> p_default p)"
    using a by simp
  show "get_path (geminiAdapter tool) [''parameters'', ''properties'', k, ''default''] =
      (if k = ''__proto__'' then None
       else case map_of (rev (params tool)) k of None \<Rightarrow> None | Some p \<Rightarrow> p_default p)"
    using g by simp
qed

text \<open>
  The \<open>items\<close> of a parameter in the adapters' output: under every name other than
  \<open>__proto__\<close> the descriptor has the key \<open>items\<close> exactly for an array parameter with
  \<open>items\<close> supplied, and then it holds the item type alone.
\<close>

lemma items_in_output:
  "get_path (openaiAdapter tool) [''function'', ''parameters'', ''properties'', k, ''items''] =
     (if k = ''__proto__'' then None
      else case map_of (rev (params tool)) k of
             None \<Rightarrow> None
           | Some p \<Rightarrow>
               if p_type p = T_array
               then map_option (\<lambda>it. JObj [(''type'', JStr (ParamType_str (i_type it)))]) (p_items p)
               else None)"
  "get_path (anthropicAdapter tool) [''input_schema'', ''properties'', k, ''items''] =
     (if k = ''__proto__'' then None
      else case map_of (rev (params tool)) k of
             None \<Rightarrow> None
           | Some p \<Rightarrow>
               if p_type p = T_array
               then map_option (\<lambda>it. JObj [(''type'', JStr (ParamType_str (i_type it)))]) (p_items p)
               else None)"
  "get_path (geminiAdapter tool) [''parameters'', ''properties'', k, ''items''] =
     (if k = ''__proto__'' then None
      else case map_of (rev (params tool)) k of
             None \<Rightarrow> None
           | Some p \<Rightarrow>
               if p_type p = T_array
               then map_option
                      (\<lambda>it. JObj [(''type'', JStr (toUpperCase (ParamType_str (i_type it))))])
                      (p_items p)
               else None)"
  "get_path (mistralAdapter tool) [''function'', ''parameters'', ''properties'', k, ''items''] =
     (if k = ''__proto__'' then None
      else case map_of (rev (params tool)) k of
             None \<Rightarrow> None
           | Some p \<Rightarrow>
               if p_type p = T_array
               then map_option (\<lambda>it. JObj [(''type'', JStr (ParamType_str (i_type it)))]) (p_items p)
               else None)"
proof -
  have o: "get_path (openaiAdapter tool)
        ([''function'', ''parameters'', ''properties'', k] @ [''items'']) =
      (if k = ''__proto__'' then None
       else case map_of (rev (params tool)) k of
              None \<Rightarrow> None
            | Some p \<Rightarrow>
                if p_type p = T_array
                then map_option (\<lambda>it. JObj [(''type'', JStr (ParamType_str (i_type it)))]) (p_items p)
                else None)"
    by (simp only: get_path_append descriptors_in_output)
       (simp add: openai_items split: option.splits)
  have a: "get_path (anthropicAdapter tool)
        ([''input_schema'', ''properties'', k] @ [''items'']) =
      (if k = ''__proto__'' then None
       else case map_of (rev (params tool)) k of
              None \<Rightarrow> None
            | Some p \<Rightarrow>
                if p_type p = T_array
                then map_option (\<lambda>it. JObj [(''type'', JStr (ParamType_str (i_type it)))]) (p_items p)
                else None)"
    by (simp only: get_path_append descriptors_in_output)
       (simp add: anthropic_openai_convertParam openai_items split: option.splits)
  have g: "get_path (geminiAdapter tool)
        ([''parameters'', ''properties'', k] @ [''items'']) =
      (if k = ''__proto__'' then None
       else case map_of (rev (params tool)) k of
              None \<Rightarrow> None
            | Some p \<Rightarrow>
                if p_type p = T_array
                then map_option
                       (\<lambda>it. JObj [(''type'', JStr (toUpperCase (ParamType_str (i_type it))))])
                       (p_items p)
                else None)"
    by (simp only: get_path_append descriptors_in_output)
       (simp add: gemini_items split: option.splits)
  show "get_path (openaiAdapter tool)
        [''function'', ''parameters'', ''properties'', k, ''items''] =
      (if k = ''__proto__'' then None
       else case map_of (rev (params tool)) k of
              None \<Rightarrow> None
            | Some p \<Rightarrow>
                if p_type p = T_array
                then map_option (\<lambda>it. JObj [(''type'', JStr (ParamType_str (i_type it)))]) (p_items p)
                else None)"
    using o by simp
  then show "get_path (mistralAdapter tool)
        [''function'', ''parameters'', ''properties'', k, ''items''] =
      (if k = ''__proto__'' then None
       else case map_of (rev (params tool)) k of
              None \<Rightarrow> None
            | Some p \<Rightarrow>
                if p_type p = T_array
                then map_option (\<lambda>it. JObj [(''type'', JStr (ParamType_str (i_type it)))]) (p_items p)
                else None)"
    by (simp only: mistralAdapter_eq)
  show "get_path (anthropicAdapter tool) [''input_schema'', ''properties'', k, ''items''] =
      (if k = ''__proto__'' then None
       else case map_of (rev (params tool)) k of
              None \<Rightarrow> None
            | Some p \<Rightarrow>
                if p_type p = T_array
                then map_option (\<lambda>it. JObj [(''type'', JStr (ParamType_str (i_type it)))]) (p_items p)
                else None)"
    using a by simp
  show "get_path (geminiAdapter tool) [''parameters'', ''properties'', k, ''items''] =
      (if k = ''__proto__'' then None
       else case map_of (rev (params tool)) k of
              None \<Rightarrow> None
            | Some p \<Rightarrow>
                if p_type p = T_array
                then map_option
                       (\<lambda>it. JObj [(''type'', JStr (toUpperCase (ParamType_str (i_type it))))])
                       (p_items p)
                else None)"
    using g by simp
qed


section \<open>The registry\<close>

lemma getProviders_eq: "getProviders = [''openai'', ''anthropic'', ''gemini'', ''mistral'']"
  by (simp add: getProviders_def adapters_def)

lemma unknown_provider_message_eq:
  "unknown_provider_message provider =
     ''Unknown provider: '' @ provider @ ''. Supported providers: openai, anthropic, gemini, mistral''"
  by (simp add: unknown_provider_message_def getProviders_eq)

lemma adapters_get_undefined:
  "provider \<notin> set getProviders \<Longrightarrow> provider \<notin> set object_prototype_keys \<Longrightarrow>
   adapters_get provider = Undefined"
  by (simp add: adapters_get_def getProviders_def adapters_def)

text \<open>
  A name that is neither registered nor inherited is rejected with the error whose
  message carries the name and lists the four providers; the four registered names
  reach their adapters.
\<close>

lemma adapt_unknown:
  "provider \<notin> set getProviders \<Longrightarrow> provider \<notin> set object_prototype_keys \<Longrightarrow>
   adapt tool provider =
     Inl (Error (''Unknown provider: '' @ provider
                 @ ''. Supported providers: openai, anthropic, gemini, mistral''))"
  by (simp add: adapt_def adapters_get_undefined unknown_provider_message_eq)

lemma adapt_registered:
  "adapt tool ''openai'' = Inr (Val (openaiAdapter tool))"
  "adapt tool ''anthropic'' = Inr (Val (anthropicAdapter tool))"
  "adapt tool ''gemini'' = Inr (Val (geminiAdapter tool))"
  "adapt tool ''mistral'' = Inr (Val (mistralAdapter tool))"
  by (simp_all add: adapt_def adapters_get_def adapters_def)

text \<open>
  For a registered provider the batch call returns the adapter's value for every
  element, in order; for a name that is neither registered nor inherited it fails at
  the first element, when there is one.
\<close>

lemma adaptAll_registered:
  "adaptAll tools ''openai'' = Inr (map (\<lambda>t. Val (openaiAdapter t)) tools)"
  "adaptAll tools ''anthropic'' = Inr (map (\<lambda>t. Val (anthropicAdapter t)) tools)"
  "adaptAll tools ''gemini'' = Inr (map (\<lambda>t. Val (geminiAdapter t)) tools)"
  "adaptAll tools ''mistral'' = Inr (map (\<lambda>t. Val (mistralAdapter t)) tools)"
  by (induction tools) (simp_all add: adapt_registered)

lemma adaptAll_unknown_nonempty:
  assumes "tools \<noteq> []"
    and "provider \<notin> set getProviders"
    and "provider \<notin> set object_prototype_keys"
  shows "adaptAll tools provider =
           Inl (Error (''Unknown provider: '' @ provider
                       @ ''. Supported providers: openai, anthropic, gemini, mistral''))"
proof -
  from assms(1) obtain t ts where "tools = t # ts"
    by (cases tools) auto
  then show ?thesis
    using adapt_unknown [OF assms(2,3), of t] by simp
qed


section \<open>Batch conversion and an unregistered provider\<close>

text \<open>
  C1 at the empty sequence and the provider name \<open>unknown\<close>, which is not registered:
  \<open>adaptAll\<close> is \<open>tools.map((tool) => adapt(tool, provider))\<close>, the callback never
  runs on an empty array, and the call returns the empty array; the unknown-provider
  error is not raised.
\<close>

theorem adaptAll_empty_unknown_provider:
  "''unknown'' \<notin> set getProviders
   \<and> adaptAll [] ''unknown'' = Inr []"
  by (simp add: getProviders_eq)


section \<open>Names the registry inherits\<close>

text \<open>
  C2 at the provider names \<open>toString\<close>, \<open>constructor\<close> and \<open>__proto__\<close>, none of them
  registered: \<open>adapters[provider]\<close> is a member inherited from \<open>Object.prototype\<close>, the
  guard \<open>if (!adapter)\<close> does not fire, and \<open>adapt\<close> returns the string
  \<open>"[object Undefined]"\<close>, returns the tool itself, or raises a \<open>TypeError\<close>; the
  unknown-provider error is not raised.
\<close>

theorem adapt_inherited_member_not_rejected:
  "''toString'' \<notin> set getProviders
   \<and> adapt weather_tool ''toString'' = Inr (Val (JStr ''[object Undefined]''))
   \<and> adapt weather_tool ''constructor'' = Inr (Ref weather_tool)
   \<and> adapt weather_tool ''__proto__'' = Inl TypeError"
  by (simp add: getProviders_eq adapt_def adapters_get_def adapters_def object_prototype_keys_def
      call_inherited_def)


section \<open>OpenAI and Mistral\<close>

text \<open>
  C3. For every tool definition the output of the OpenAI adapter equals the output of
  the Mistral adapter: both are \<open>{ type: "function", function: { name, description,
  parameters: { type: "object", properties, required } } }\<close> with the same contents.
\<close>

theorem openai_equals_mistral:
  "openaiAdapter tool = mistralAdapter tool
   \<and> adapt tool ''openai'' = adapt tool ''mistral''
   \<and> mistralAdapter tool =
       JObj [(''type'', JStr ''function''),
             (''function'',
              JObj [(''name'', JStr (name tool)),
                    (''description'', JStr (description tool)),
                    (''parameters'',
                     JObj [(''type'', JStr ''object''),
                           (''properties'', JObj (fst (mistral_loop (params tool) ([], [])))),
                           (''required'', JArr (map JStr (required_names (params tool))))])])]"
proof -
  have "openaiAdapter tool = mistralAdapter tool"
    by (simp add: mistralAdapter_eq)
  moreover have "adapt tool ''openai'' = adapt tool ''mistral''"
    by (simp add: adapt_registered mistralAdapter_eq)
  moreover have "mistralAdapter tool =
       JObj [(''type'', JStr ''function''),
             (''function'',
              JObj [(''name'', JStr (name tool)),
                    (''description'', JStr (description tool)),
                    (''parameters'',
                     JObj [(''type'', JStr ''object''),
                           (''properties'', JObj (fst (mistral_loop (params tool) ([], [])))),
                           (''required'', JArr (map JStr (required_names (params tool))))])])]"
    by (simp add: mistralAdapter_eq openaiAdapter_eq mistral_openai_loop)
  ultimately show ?thesis by blast
qed


section \<open>The type tags of the Gemini adapter\<close>



section \<open>The envelope of the Anthropic adapter\<close>

text \<open>
  C5. Converting the tool \<open>{name: "get_weather", description: "d", params: {location:
  {type: "string", required: true}}}\<close> with provider \<open>"anthropic"\<close> yields exactly
  \<open>{name: "get_weather", description: "d", input_schema: {type: "object", properties:
  {location: {type: "string"}}, required: ["location"]}}\<close>, and the result has no key
  \<open>type\<close> and no key \<open>function\<close> at the top level.
\<close>

theorem anthropic_weather_envelope:
  "adapt weather_tool ''anthropic'' =
     Inr (Val (JObj [(''name'', JStr ''get_weather''),
                     (''description'', JStr ''d''),
                     (''input_schema'',
                      JObj [(''type'', JStr ''object''),
                            (''properties'', JObj [(''location'', JObj [(''type'', JStr ''string'')])]),
                            (''required'', JArr [JStr ''location''])])]))
   \<and> ''type'' \<notin> set (own_keys (anthropicAdapter weather_tool))
   \<and> ''function'' \<notin> set (own_keys (anthropicAdapter weather_tool))"
  by (simp add: adapt_def adapters_get_def adapters_def anthropicAdapter_def weather_tool_def
      anthropic_convertParam_def js_set_def own_keys_def)


section \<open>Required parameters and the keys of properties\<close>

text \<open>
  C6 at a tool whose parameter is named \<open>__proto__\<close> and is not required: the
  assignment \<open>properties["__proto__"] = ...\<close> runs the prototype setter of the fresh
  object instead of adding a key, so under each of the four adapters the output
  \<open>properties\<close> is the empty object and the parameter is not among its keys.
\<close>

theorem proto_parameter_dropped:
  "params proto_tool = [(''__proto__'', ToolParam T_string None None None None None None)]
   \<and> get_path (openaiAdapter proto_tool) [''function'', ''parameters'', ''properties'']
       = Some (JObj [])
   \<and> get_path (anthropicAdapter proto_tool) [''input_schema'', ''properties''] = Some (JObj [])
   \<and> get_path (geminiAdapter proto_tool) [''parameters'', ''properties''] = Some (JObj [])
   \<and> get_path (mistralAdapter proto_tool) [''function'', ''parameters'', ''properties'']
       = Some (JObj [])"
  by (simp add: proto_tool_def openaiAdapter_def anthropicAdapter_def geminiAdapter_def
      mistralAdapter_def get_field_def js_set_def)


section \<open>Default values\<close>

text \<open>
  C7 at a tool whose parameter, named \<open>__proto__\<close>, has the default \<open>0\<close>: under each of
  the four registered providers the output \<open>properties\<close> is the empty object, so the
  output has no descriptor for the parameter and its default is not emitted. The
  descriptor is lost at the assignment \<open>properties["__proto__"] = ...\<close>, as for C6.
\<close>

theorem proto_default_dropped:
  "params proto_default_tool =
     [(''__proto__'', ToolParam T_number None None (Some (JNum 0)) None None None)]
   \<and> adapt proto_default_tool ''openai'' =
       Inr (Val (JObj [(''type'', JStr ''function''),
                       (''function'',
                        JObj [(''name'', JStr ''t''),
                              (''description'', JStr ''d''),
                              (''parameters'',
                               JObj [(''type'', JStr ''object''),
                                     (''properties'', JObj []),
                                     (''required'', JArr [])])])]))
   \<and> adapt proto_default_tool ''anthropic'' =
       Inr (Val (JObj [(''name'', JStr ''t''),
                       (''description'', JStr ''d''),
                       (''input_schema'',
                        JObj [(''type'', JStr ''object''),
                              (''properties'', JObj []),
                              (''required'', JArr [])])]))
   \<and> adapt proto_default_tool ''gemini'' =
       Inr (Val (JObj [(''name'', JStr ''t''),
                       (''description'', JStr ''d''),
                       (''parameters'',
                        JObj [(''type'', JStr ''OBJECT''),
                              (''properties'', JObj []),
                              (''required'', JArr [])])]))
   \<and> adapt proto_default_tool ''mistral'' =
       Inr (Val (JObj [(''type'', JStr ''function''),
                       (''function'',
                        JObj [(''name'', JStr ''t''),
                              (''description'', JStr ''d''),
                              (''parameters'',
                               JObj [(''type'', JStr ''object''),
                                     (''properties'', JObj []),
                                     (''required'', JArr [])])])]))"
  by (simp add: adapt_registered proto_default_tool_def openaiAdapter_def anthropicAdapter_def
      geminiAdapter_def mistralAdapter_def js_set_def)


section \<open>Totality and the empty parameter mapping\<close>

text \<open>
  C8. For every tool and each of the four registered providers \<open>adapt\<close> returns a
  value, never an error, and the value is the provider's envelope in full: the tool's
  name and description, the constant container type, the object \<open>properties\<close> whose
  keys are the parameter names (all but \<open>__proto__\<close>) and the array \<open>required\<close> of the
  names of the required parameters. For a tool with no parameters \<open>properties\<close> is the
  empty object and \<open>required\<close> the empty array, both present. The batch call returns
  the adapter's value for every element of every sequence.
\<close>

theorem converters_total_empty_params:
  "(\<exists>props.
      adapt tool ''openai'' =
        Inr (Val (JObj [(''type'', JStr ''function''),
                        (''function'',
                         JObj [(''name'', JStr (name tool)),
                               (''description'', JStr (description tool)),
                               (''parameters'',
                                JObj [(''type'', JStr ''object''),
                                      (''properties'', JObj props),
                                      (''required'',
                                       JArr (map JStr (required_names (params tool))))])])]))
      \<and> fst ` set props = fst ` set (params tool) - {''__proto__''})
   \<and> (\<exists>props.
      adapt tool ''anthropic'' =
        Inr (Val (JObj [(''name'', JStr (name tool)),
                        (''description'', JStr (description tool)),
                        (''input_schema'',
                         JObj [(''type'', JStr ''object''),
                               (''properties'', JObj props),
                               (''required'', JArr (map JStr (required_names (params tool))))])]))
      \<and> fst ` set props = fst ` set (params tool) - {''__proto__''})
   \<and> (\<exists>props.
      adapt tool ''gemini'' =
        Inr (Val (JObj [(''name'', JStr (name tool)),
                        (''description'', JStr (description tool)),
                        (''parameters'',
                         JObj [(''type'', JStr ''OBJECT''),
                               (''properties'', JObj props),
                               (''required'', JArr (map JStr (required_names (params tool))))])]))
      \<and> fst ` set props = fst ` set (params tool) - {''__proto__''})
   \<and> (\<exists>props.
      adapt tool ''mistral'' =
        Inr (Val (JObj [(''type'', JStr ''function''),
                        (''function'',
                         JObj [(''name'', JStr (name tool)),
                               (''description'', JStr (description tool)),
                               (''parameters'',
                                JObj [(''type'', JStr ''object''),
                                      (''properties'', JObj props),
                                      (''required'',
                                       JArr (map JStr (required_names (params tool))))])])]))
      \<and> fst ` set props = fst ` set (params tool) - {''__proto__''})
   \<and> adapt (tool\<lparr>params := []\<rparr>) ''openai'' =
       Inr (Val (JObj [(''type'', JStr ''function''),
                       (''function'',
                        JObj [(''name'', JStr (name tool)),
                              (''description'', JStr (description tool)),
                              (''parameters'',
                               JObj [(''type'', JStr ''object''),
                                     (''properties'', JObj []),
                                     (''required'', JArr [])])])]))
   \<and> adapt (tool\<lparr>params := []\<rparr>) ''anthropic'' =
       Inr (Val (JObj [(''name'', JStr (name tool)),
                       (''description'', JStr (description tool)),
                       (''input_schema'',
                        JObj [(''type'', JStr ''object''),
                              (''properties'', JObj []),
                              (''required'', JArr [])])]))
   \<and> adapt (tool\<lparr>params := []\<rparr>) ''gemini'' =
       Inr (Val (JObj [(''name'', JStr (name tool)),
                       (''description'', JStr (description tool)),
                       (''parameters'',
                        JObj [(''type'', JStr ''OBJECT''),
                              (''properties'', JObj []),
                              (''required'', JArr [])])]))
   \<and> adapt (tool\<lparr>params := []\<rparr>) ''mistral'' =
       Inr (Val (JObj [(''type'', JStr ''function''),
                       (''function'',
                        JObj [(''name'', JStr (name tool)),
                              (''description'', JStr (description tool)),
                              (''parameters'',
                               JObj [(''type'', JStr ''object''),
                                     (''properties'', JObj []),
                                     (''required'', JArr [])])])]))
   \<and> adaptAll tools ''openai'' = Inr (map (\<lambda>t. Val (openaiAdapter t)) tools)
   \<and> adaptAll tools ''anthropic'' = Inr (map (\<lambda>t. Val (anthropicAdapter t)) tools)
   \<and> adaptAll tools ''gemini'' = Inr (map (\<lambda>t. Val (geminiAdapter t)) tools)
   \<and> adaptAll tools ''mistral'' = Inr (map (\<lambda>t. Val (mistralAdapter t)) tools)"
proof -
  let ?o = "fst (openai_loop (params tool) ([], []))"
  let ?g = "fst (gemini_loop (params tool) ([], []))"
  have ko: "fst ` set ?o = fst ` set (params tool) - {''__proto__''}"
    using openai_loop_keys [of "[]" "params tool" "[]"] by simp
  have kg: "fst ` set ?g = fst ` set (params tool) - {''__proto__''}"
    using gemini_loop_keys [of "[]" "params tool" "[]"] by simp
  have o: "\<exists>props.
      adapt tool ''openai'' =
        Inr (Val (JObj [(''type'', JStr ''function''),
                        (''function'',
                         JObj [(''name'', JStr (name tool)),
                               (''description'', JStr (description tool)),
                               (''parameters'',
                                JObj [(''type'', JStr ''object''),
                                      (''properties'', JObj props),
                                      (''required'',
                                       JArr (map JStr (required_names (params tool))))])])]))
      \<and> fst ` set props = fst ` set (params tool) - {''__proto__''}"
    using ko by (intro exI [of _ ?o]) (simp add: adapt_registered openaiAdapter_eq)
  have a: "\<exists>props.
      adapt tool ''anthropic'' =
        Inr (Val (JObj [(''name'', JStr (name tool)),
                        (''description'', JStr (description tool)),
                        (''input_schema'',
                         JObj [(''type'', JStr ''object''),
                               (''properties'', JObj props),
                               (''required'', JArr (map JStr (required_names (params tool))))])]))
      \<and> fst ` set props = fst ` set (params tool) - {''__proto__''}"
    using ko by (intro exI [of _ ?o]) (simp add: adapt_registered anthropicAdapter_eq)
  have g: "\<exists>props.
      adapt tool ''gemini'' =
        Inr (Val (JObj [(''name'', JStr (name tool)),
                        (''description'', JStr (description tool)),
                        (''parameters'',
                         JObj [(''type'', JStr ''OBJECT''),
                               (''properties'', JObj props),
                               (''required'', JArr (map JStr (required_names (params tool))))])]))
      \<and> fst ` set props = fst ` set (params tool) - {''__proto__''}"
    using kg by (intro exI [of _ ?g]) (simp add: adapt_registered geminiAdapter_eq)
  have m: "\<exists>props.
      adapt tool ''mistral'' =
        Inr (Val (JObj [(''type'', JStr ''function''),
                        (''function'',
                         JObj [(''name'', JStr (name tool)),
                               (''description'', JStr (description tool)),
                               (''parameters'',
                                JObj [(''type'', JStr ''object''),
                                      (''properties'', JObj props),
                                      (''required'',
                                       JArr (map JStr (required_names (params tool))))])])]))
      \<and> fst ` set props = fst ` set (params tool) - {''__proto__''}"
    using ko
    by (intro exI [of _ ?o]) (simp add: adapt_registered mistralAdapter_eq openaiAdapter_eq)
  have e: "adapt (tool\<lparr>params := []\<rparr>) ''openai'' =
       Inr (Val (JObj [(''type'', JStr ''function''),
                       (''function'',
                        JObj [(''name'', JStr (name tool)),
                              (''description'', JStr (description tool)),
                              (''parameters'',
                               JObj [(''type'', JStr ''object''),
                                     (''properties'', JObj []),
                                     (''required'', JArr [])])])]))"
    "adapt (tool\<lparr>params := []\<rparr>) ''anthropic'' =
       Inr (Val (JObj [(''name'', JStr (name tool)),
                       (''description'', JStr (description tool)),
                       (''input_schema'',
                        JObj [(''type'', JStr ''object''),
                              (''properties'', JObj []),
                              (''required'', JArr [])])]))"
    "adapt (tool\<lparr>params := []\<rparr>) ''gemini'' =
       Inr (Val (JObj [(''name'', JStr (name tool)),
                       (''description'', JStr (description tool)),
                       (''parameters'',
                        JObj [(''type'', JStr ''OBJECT''),
                              (''properties'', JObj []),
                              (''required'', JArr [])])]))"
    "adapt (tool\<lparr>params := []\<rparr>) ''mistral'' =
       Inr (Val (JObj [(''type'', JStr ''function''),
                       (''function'',
                        JObj [(''name'', JStr (name tool)),
                              (''description'', JStr (description tool)),
                              (''parameters'',
                               JObj [(''type'', JStr ''object''),
                                     (''properties'', JObj []),
                                     (''required'', JArr [])])])]))"
    by (simp_all add: adapt_registered openaiAdapter_def anthropicAdapter_def geminiAdapter_def
        mistralAdapter_def)
  from o a g m e adaptAll_registered [of tools] show ?thesis
    by (intro conjI)
qed


section \<open>Nested properties are not read\<close>

text \<open>
  C9. Two tool definitions that differ only in the field \<open>properties\<close> of some of their
  parameters convert to equal outputs under each of the four adapters, and so under
  each registered provider.
\<close>

theorem adapters_ignore_nested_properties:
  assumes "differ_only_in_properties t u"
  shows "openaiAdapter t = openaiAdapter u
         \<and> anthropicAdapter t = anthropicAdapter u
         \<and> geminiAdapter t = geminiAdapter u
         \<and> mistralAdapter t = mistralAdapter u
         \<and> adapt t ''openai'' = adapt u ''openai''
         \<and> adapt t ''anthropic'' = adapt u ''anthropic''
         \<and> adapt t ''gemini'' = adapt u ''gemini''
         \<and> adapt t ''mistral'' = adapt u ''mistral''"
proof -
  from assms have same: "name t = name u" "description t = description u"
    and rel: "list_all2 (\<lambda>(k, p) (l, q). k = l \<and> same_but_properties p q) (params t) (params u)"
    by (simp_all add: differ_only_in_properties_def)
  have o: "openai_loop (params t) ([], []) = openai_loop (params u) ([], [])"
    using rel by (rule openai_loop_cong)
  have g: "gemini_loop (params t) ([], []) = gemini_loop (params u) ([], [])"
    using rel by (rule gemini_loop_cong)
  have "openaiAdapter t = openaiAdapter u"
    by (simp add: openaiAdapter_def same o)
  moreover have "anthropicAdapter t = anthropicAdapter u"
    by (simp add: anthropicAdapter_def anthropic_openai_loop same o)
  moreover have "geminiAdapter t = geminiAdapter u"
    by (simp add: geminiAdapter_def same g)
  ultimately show ?thesis
    by (simp add: adapt_registered mistralAdapter_eq)
qed

theorem adapters_ignore_nested_properties_witness:
  "differ_only_in_properties nested_tool_a nested_tool_b
   \<and> nested_tool_a \<noteq> nested_tool_b
   \<and> openaiAdapter nested_tool_a = openaiAdapter nested_tool_b
   \<and> anthropicAdapter nested_tool_a = anthropicAdapter nested_tool_b
   \<and> geminiAdapter nested_tool_a = geminiAdapter nested_tool_b
   \<and> mistralAdapter nested_tool_a = mistralAdapter nested_tool_b"
proof -
  have d: "differ_only_in_properties nested_tool_a nested_tool_b"
    by (simp add: differ_only_in_properties_def same_but_properties_def nested_tool_a_def
        nested_tool_b_def)
  have "nested_tool_a \<noteq> nested_tool_b"
    by (simp add: nested_tool_a_def nested_tool_b_def)
  with d adapters_ignore_nested_properties [OF d] show ?thesis by simp
qed


section \<open>The items of an array parameter\<close>

text \<open>
  C10 at a tool whose parameter, named \<open>__proto__\<close>, is an array with string items:
  under each of the four registered providers the output \<open>properties\<close> is the empty
  object, so the output has no descriptor for the parameter and no \<open>items\<close> field,
  although the type is \<open>array\<close> and \<open>items\<close> is supplied. The descriptor is lost at the
  assignment \<open>properties["__proto__"] = ...\<close>, as for C6.
\<close>

theorem proto_array_items_dropped:
  "params proto_array_tool =
     [(''__proto__'', ToolParam T_array None None None None (Some (ToolItems T_string)) None)]
   \<and> adapt proto_array_tool ''openai'' =
       Inr (Val (JObj [(''type'', JStr ''function''),
                       (''function'',
                        JObj [(''name'', JStr ''t''),
                              (''description'', JStr ''d''),
                              (''parameters'',
                               JObj [(''type'', JStr ''object''),
                                     (''properties'', JObj []),
                                     (''required'', JArr [])])])]))
   \<and> adapt proto_array_tool ''anthropic'' =
       Inr (Val (JObj [(''name'', JStr ''t''),
                       (''description'', JStr ''d''),
                       (''input_schema'',
                        JObj [(''type'', JStr ''object''),
                              (''properties'', JObj []),
                              (''required'', JArr [])])]))
   \<and> adapt proto_array_tool ''gemini'' =
       Inr (Val (JObj [(''name'', JStr ''t''),
                       (''description'', JStr ''d''),
                       (''parameters'',
                        JObj [(''type'', JStr ''OBJECT''),
                              (''properties'', JObj []),
                              (''required'', JArr [])])]))
   \<and> adapt proto_array_tool ''mistral'' =
       Inr (Val (JObj [(''type'', JStr ''function''),
                       (''function'',
                        JObj [(''name'', JStr ''t''),
                              (''description'', JStr ''d''),
                              (''parameters'',
                               JObj [(''type'', JStr ''object''),
                                     (''properties'', JObj []),
                                     (''required'', JArr [])])])]))"
  by (simp add: adapt_registered proto_array_tool_def string_array_param_def openaiAdapter_def
      anthropicAdapter_def geminiAdapter_def mistralAdapter_def js_set_def)


end
